theory Spec2Isabelle
  imports Complex_Main "HOL-Library.Word"
begin

section \<open>JavaScript values used by the chat page\<close>

text \<open>
  A JavaScript string is a sequence of UTF-16 code units. \<open>js_literal\<close> writes an
  ASCII literal of the source as such a sequence.
\<close>

type_synonym jsstring = "16 word list"

definition js_literal :: "string \<Rightarrow> jsstring" where
  "js_literal s = map (\<lambda>c. of_char c) s"

text \<open>
  \<open>String.prototype.trim\<close> removes, at both ends, the code units that ECMAScript
  calls WhiteSpace or LineTerminator: TAB, LF, VT, FF, CR, SP, NBSP, the Unicode space
  separators (U+1680, U+2000 to U+200A, U+202F, U+205F, U+3000), LS, PS and the BOM.
\<close>

definition isWhiteSpace :: "16 word \<Rightarrow> bool" where
  "isWhiteSpace c \<longleftrightarrow>
     c \<in> {0x0009, 0x000A, 0x000B, 0x000C, 0x000D, 0x0020, 0x00A0, 0x1680,
          0x2028, 0x2029, 0x202F, 0x205F, 0x3000, 0xFEFF}
     \<or> (0x2000 \<le> c \<and> c \<le> 0x200A)"

definition trim :: "jsstring \<Rightarrow> jsstring" where
  "trim s = rev (dropWhile isWhiteSpace (rev (dropWhile isWhiteSpace s)))"

text \<open>
  A cell of a result table is a number or a string
  (\<^verbatim>\<open>(string | number)[][]\<close>). The numbers are only carried and tested
  against zero, never computed with; they are modelled as rationals. Reading an array
  beyond its end gives \<^verbatim>\<open>undefined\<close>, here \<open>None\<close>.
\<close>

datatype cell = Num rat | Str jsstring

definition at_index :: "'a list \<Rightarrow> nat \<Rightarrow> 'a option" where
  "at_index xs i = (if i < length xs then Some (xs ! i) else None)"

text \<open>
  Truthiness of a cell that may be undefined: \<^verbatim>\<open>undefined\<close>, zero and the
  empty string are falsy.
\<close>

fun truthy_cell :: "cell option \<Rightarrow> bool" where
  "truthy_cell None = False"
| "truthy_cell (Some (Num x)) = (x \<noteq> 0)"
| "truthy_cell (Some (Str s)) = (s \<noteq> [])"

section \<open>The data model of \<^verbatim>\<open>journey-chat.tsx\<close>\<close>

text \<open>
  \<^verbatim>\<open>interface BackendResponse\<close>: every field is optional.
\<close>

record BackendResponse =
  query_results :: "cell list list option"
  nl_explanation :: "jsstring option"
  error :: "jsstring option"

text \<open>
  \<^verbatim>\<open>interface ChatMessage\<close>. The field \<^verbatim>\<open>id\<close> is written
  \<open>id_msg\<close>; it holds a reading of \<^verbatim>\<open>Date.now()\<close>, a whole number of
  milliseconds.
\<close>

datatype message_type = User | System

record ChatMessage =
  id_msg :: int
  type :: message_type
  content :: jsstring
  responseData :: "BackendResponse option"

text \<open>
  The state hooks of the component \<^verbatim>\<open>JourneyUI\<close>. The hook
  \<^verbatim>\<open>responseData\<close> is written \<open>responseData_state\<close>.
\<close>

record JourneyUI =
  userInput :: jsstring
  responseData_state :: "BackendResponse option"
  isLoading :: bool
  activeTab :: jsstring
  isSidebarOpen :: bool
  chatHistory :: "ChatMessage list"

definition JourneyUI_initial :: JourneyUI where
  "JourneyUI_initial =
     \<lparr>userInput = [], responseData_state = None, isLoading = False,
      activeTab = js_literal ''book'', isSidebarOpen = False, chatHistory = []\<rparr>"

definition BACKEND_URL :: jsstring where
  "BACKEND_URL = js_literal ''http://127.0.0.1:5000/query''"

text \<open>
  What the page sees of a \<^verbatim>\<open>fetch\<close>: the promise rejects, or it gives a
  response with \<^verbatim>\<open>ok\<close>, \<^verbatim>\<open>status\<close> and the outcome of
  \<^verbatim>\<open>response.json()\<close>, which is \<open>None\<close> when that promise rejects.
\<close>

datatype fetch_result =
  Rejected
  | Response (ok: bool) (status: nat) (json: "BackendResponse option")

text \<open>A call of \<^verbatim>\<open>fetch\<close>: the URL and the query of the POSTed body.\<close>

datatype fetch_call = POST (url: jsstring) (query: jsstring)

text \<open>What the \<^verbatim>\<open>try\<close> block can throw.\<close>

datatype js_error = FetchFailed | ApiRequestFailed nat | JsonFailed

text \<open>
  The page together with the calls it has issued: every \<^verbatim>\<open>fetch\<close> in the
  order of issue, and the positions of those that have not resolved yet.
\<close>

record world =
  ui :: JourneyUI
  calls :: "fetch_call list"
  pending :: "nat list"

definition world_initial :: world where
  "world_initial = \<lparr>ui = JourneyUI_initial, calls = [], pending = []\<rparr>"

section \<open>The controller\<close>

definition generic_failure :: jsstring where
  "generic_failure = js_literal ''An error occurred. Please try again.''"

text \<open>
  \<^verbatim>\<open>callBackendAPI\<close> runs in two parts. The first part runs at the
  submission, up to the \<^verbatim>\<open>await fetch\<close>: it sets the loading flag, appends the
  user message and issues the call. \<open>now\<close> is the reading of
  \<^verbatim>\<open>Date.now()\<close>.
\<close>

definition userMessage :: "int \<Rightarrow> jsstring \<Rightarrow> ChatMessage" where
  "userMessage now input =
     \<lparr>id_msg = now, type = User, content = input, responseData = None\<rparr>"

definition callBackendAPI_begin :: "int \<Rightarrow> jsstring \<Rightarrow> world \<Rightarrow> world" where
  "callBackendAPI_begin now input w =
     w\<lparr>ui := (ui w)\<lparr>isLoading := True,
                     chatHistory := chatHistory (ui w) @ [userMessage now input]\<rparr>,
       calls := calls w @ [POST BACKEND_URL input],
       pending := pending w @ [length (calls w)]\<rparr>"

text \<open>
  The second part runs when the call resolves. The \<^verbatim>\<open>try\<close> block either
  throws, before it has changed any state, or stores the response and appends the
  system message when \<^verbatim>\<open>data.nl_explanation\<close> is truthy.
\<close>

definition systemMessage :: "int \<Rightarrow> jsstring \<Rightarrow> BackendResponse \<Rightarrow> ChatMessage" where
  "systemMessage now explanation data =
     \<lparr>id_msg = now + 1, type = System, content = explanation, responseData = Some data\<rparr>"

definition errorMessage :: "int \<Rightarrow> ChatMessage" where
  "errorMessage now =
     \<lparr>id_msg = now, type = System, content = generic_failure, responseData = None\<rparr>"

definition try_block :: "int \<Rightarrow> fetch_result \<Rightarrow> JourneyUI \<Rightarrow> js_error + JourneyUI" where
  "try_block now r st =
     (case r of
        Rejected \<Rightarrow> Inl FetchFailed
      | Response okay code body \<Rightarrow>
          if \<not> okay then Inl (ApiRequestFailed code)
          else (case body of
                  None \<Rightarrow> Inl JsonFailed
                | Some data \<Rightarrow>
                    let st1 = st\<lparr>responseData_state := Some data\<rparr>
                    in Inr (case nl_explanation data of
                              None \<Rightarrow> st1
                            | Some explanation \<Rightarrow>
                                if explanation \<noteq> []
                                then st1\<lparr>chatHistory :=
                                       chatHistory st1 @ [systemMessage now explanation data]\<rparr>
                                else st1)))"

definition catch_block :: "int \<Rightarrow> JourneyUI \<Rightarrow> JourneyUI" where
  "catch_block now st =
     st\<lparr>chatHistory := chatHistory st @ [errorMessage now],
        responseData_state :=
          Some \<lparr>query_results = None, nl_explanation = None, error = Some generic_failure\<rparr>\<rparr>"

definition callBackendAPI_resume :: "int \<Rightarrow> fetch_result \<Rightarrow> JourneyUI \<Rightarrow> JourneyUI" where
  "callBackendAPI_resume now r st =
     (let st' = (case try_block now r st of
                   Inl e \<Rightarrow> catch_block now st
                 | Inr s \<Rightarrow> s)
      in st'\<lparr>isLoading := False\<rparr>)"

text \<open>
  \<^verbatim>\<open>handleSubmit\<close>: the form's submit handler. It reads the input hook, does
  nothing when the trimmed input is the empty string, and otherwise calls
  \<^verbatim>\<open>callBackendAPI\<close> with the input as it stands. When that call has resolved it
  clears the input.
\<close>

definition handleSubmit :: "int \<Rightarrow> world \<Rightarrow> world" where
  "handleSubmit now w =
     (if trim (userInput (ui w)) \<noteq> []
      then callBackendAPI_begin now (userInput (ui w)) w
      else w)"

definition handleSubmit_resume :: "int \<Rightarrow> fetch_result \<Rightarrow> JourneyUI \<Rightarrow> JourneyUI" where
  "handleSubmit_resume now r st = (callBackendAPI_resume now r st)\<lparr>userInput := []\<rparr>"

text \<open>
  The events of the page: the user edits the input, the form is submitted, and the call
  at position \<open>k\<close> resolves. Only a pending call can resolve: an event that names
  a call which is not pending leaves the page as it is.
\<close>

datatype event =
  Type jsstring
  | Submit int
  | Resolve nat int fetch_result

fun step :: "event \<Rightarrow> world \<Rightarrow> world" where
  "step (Type s) w = w\<lparr>ui := (ui w)\<lparr>userInput := s\<rparr>\<rparr>"
| "step (Submit now) w = handleSubmit now w"
| "step (Resolve k now r) w =
     (if k \<in> set (pending w)
      then w\<lparr>ui := handleSubmit_resume now r (ui w), pending := removeAll k (pending w)\<rparr>
      else w)"

definition run :: "event list \<Rightarrow> world \<Rightarrow> world" where
  "run es w = fold step es w"

section \<open>The chart component of the chat page\<close>

text \<open>
  The \<^verbatim>\<open>DataVisualization\<close> that takes rows of
  \<^verbatim>\<open>(string | number)\<close>, as the chat page hands them over; each row is
  destructured as \<^verbatim>\<open>[name, value]\<close>.
\<close>

definition COLORS :: "jsstring list" where
  "COLORS = map js_literal
     [''#0088FE'', ''#00C49F'', ''#FFBB28'', ''#FF8042'', ''#8884D8'', ''#82CA9D'']"

datatype chart_type = Bar | Pie | Line

record point =
  name :: "cell option"
  "value" :: "cell option"

definition transformedData :: "cell list list \<Rightarrow> point list" where
  "transformedData data = map (\<lambda>row. \<lparr>name = at_index row 0, value = at_index row 1\<rparr>) data"

text \<open>
  The chart elements, with the data handed to them: a bar chart with the fill of its
  one bar, a pie chart with the fills of its cells, a line chart with its stroke.
\<close>

datatype chart =
  BarChart "point list" jsstring
  | PieChart "point list" "jsstring list"
  | LineChart "point list" jsstring

fun chart_data :: "chart \<Rightarrow> point list" where
  "chart_data (BarChart d c) = d"
| "chart_data (PieChart d cs) = d"
| "chart_data (LineChart d c) = d"

definition renderChart :: "chart_type \<Rightarrow> point list \<Rightarrow> chart" where
  "renderChart chartType td =
     (case chartType of
        Bar \<Rightarrow> BarChart td (COLORS ! 0)
      | Pie \<Rightarrow> PieChart td (map (\<lambda>index. COLORS ! (index mod length COLORS)) [0..<length td])
      | Line \<Rightarrow> LineChart td (COLORS ! 0))"

text \<open>
  What the component renders: \<open>None\<close> is \<^verbatim>\<open>null\<close>; otherwise the row of
  mode buttons with the selected one highlighted, and the chart.
\<close>

record visualization =
  selected :: chart_type
  chart :: chart

definition DataVisualization :: "cell list list option \<Rightarrow> chart_type \<Rightarrow> visualization option" where
  "DataVisualization data chartType =
     (case data of
        None \<Rightarrow> None
      | Some d \<Rightarrow>
          if length d = 0 then None
          else Some \<lparr>selected = chartType, chart = renderChart chartType (transformedData d)\<rparr>)"

section \<open>What the chat page shows below a message\<close>

text \<open>
  Below the bubble of a system message that carries \<^verbatim>\<open>query_results\<close> the page
  shows, for exactly one row, the first two cells of the row as text, and otherwise
  the chart component. An array is truthy also when it is empty. \<open>chartType\<close> is the
  state of the chart component mounted for the message.
\<close>

datatype attachment =
  Scalar "cell option" "cell option"
  | Chart "visualization option"

definition render_attachment :: "ChatMessage \<Rightarrow> chart_type \<Rightarrow> attachment option" where
  "render_attachment message chartType =
     (if type message = System
      then (case responseData message of
              None \<Rightarrow> None
            | Some rd \<Rightarrow>
                (case query_results rd of
                   None \<Rightarrow> None
                 | Some rows \<Rightarrow>
                     Some (if length rows = 1
                           then Scalar (at_index (rows ! 0) 0) (at_index (rows ! 0) 1)
                           else Chart (DataVisualization (Some rows) chartType))))
      else None)"

section \<open>The chart component with column labels\<close>

text \<open>
  The other \<^verbatim>\<open>DataVisualization\<close> of the repository takes optional
  \<^verbatim>\<open>labels\<close> and makes one entry per column of the first row, with a key
  \<^verbatim>\<open>Row i\<close> for each row. An entry is an object, here the list of its keys with
  their values. Its data are declared as rows of numbers; the model takes rows of cells.
\<close>

fun decimal :: "nat \<Rightarrow> jsstring" where
  "decimal n =
     (if n < 10 then [of_nat (48 + n)] else decimal (n div 10) @ [of_nat (48 + n mod 10)])"

declare decimal.simps [simp del]

type_synonym entry = "(jsstring \<times> cell option) list"

definition property :: "entry \<Rightarrow> jsstring \<Rightarrow> cell option" where
  "property e k = (case map_of e k of None \<Rightarrow> None | Some v \<Rightarrow> v)"

definition Row_key :: "nat \<Rightarrow> jsstring" where
  "Row_key rowIndex = js_literal ''Row '' @ decimal (rowIndex + 1)"

definition columnName :: "jsstring list option \<Rightarrow> nat \<Rightarrow> jsstring" where
  "columnName labels colIndex =
     (case labels of
        None \<Rightarrow> js_literal ''Column '' @ decimal (colIndex + 1)
      | Some ls \<Rightarrow>
          (case at_index ls colIndex of
             None \<Rightarrow> js_literal ''Column '' @ decimal (colIndex + 1)
           | Some label \<Rightarrow>
               if label \<noteq> [] then label
               else js_literal ''Column '' @ decimal (colIndex + 1)))"

definition transformedData_labels :: "cell list list \<Rightarrow> jsstring list option \<Rightarrow> entry list" where
  "transformedData_labels d labels =
     map (\<lambda>colIndex.
            (js_literal ''name'', Some (Str (columnName labels colIndex)))
            # map (\<lambda>rowIndex. (Row_key rowIndex, at_index (d ! rowIndex) colIndex))
                [0..<length d])
         [0..<length (d ! 0)]"

definition series :: "cell list list \<Rightarrow> (jsstring \<times> jsstring) list" where
  "series d =
     map (\<lambda>rowIndex. (Row_key rowIndex, COLORS ! (rowIndex mod length COLORS))) [0..<length d]"

definition pieData :: "entry list \<Rightarrow> point list" where
  "pieData td =
     map (\<lambda>item.
            \<lparr>name = property item (js_literal ''name''),
             value = (if truthy_cell (property item (js_literal ''Row 1''))
                      then property item (js_literal ''Row 1'')
                      else Some (Num 0))\<rparr>)
         td"

datatype chart_labels =
  BarChart_labels "entry list" "(jsstring \<times> jsstring) list"
  | PieChart_labels "point list" "jsstring list"
  | LineChart_labels "entry list" "(jsstring \<times> jsstring) list"

definition renderChart_labels :: "chart_type \<Rightarrow> cell list list \<Rightarrow> entry list \<Rightarrow> chart_labels" where
  "renderChart_labels chartType d td =
     (case chartType of
        Bar \<Rightarrow> BarChart_labels td (series d)
      | Pie \<Rightarrow>
          PieChart_labels (pieData td)
            (map (\<lambda>index. COLORS ! (index mod length COLORS)) [0..<length (pieData td)])
      | Line \<Rightarrow> LineChart_labels td (series d))"

definition DataVisualization_labels ::
  "cell list list option \<Rightarrow> jsstring list option \<Rightarrow> chart_type \<Rightarrow> (chart_type \<times> chart_labels) option" where
  "DataVisualization_labels data labels chartType =
     (case data of
        None \<Rightarrow> None
      | Some d \<Rightarrow>
          if length d = 0 then None
          else Some (chartType, renderChart_labels chartType d (transformedData_labels d labels)))"

section \<open>The chart component as a state machine\<close>

text \<open>
  A mounted component: its property \<^verbatim>\<open>data\<close> and its state hook
  \<^verbatim>\<open>chartType\<close>, which starts as \<^verbatim>\<open>'bar'\<close>. A click on a mode button
  calls \<^verbatim>\<open>setChartType\<close>.
\<close>

record widget =
  data :: "cell list list option"
  chartType :: chart_type

definition mount :: "cell list list option \<Rightarrow> widget" where
  "mount d = \<lparr>data = d, chartType = Bar\<rparr>"

definition setChartType :: "chart_type \<Rightarrow> widget \<Rightarrow> widget" where
  "setChartType t wd = wd\<lparr>chartType := t\<rparr>"

definition render_widget :: "widget \<Rightarrow> visualization option" where
  "render_widget wd = DataVisualization (data wd) (chartType wd)"

section \<open>Runs in which every submission resolves before the next\<close>

text \<open>
  A cycle is one submission with its resolution: the text typed, the time of the
  submission, the time of the resolution and the result of the call. \<open>sequential k cs\<close>
  is the run in which each cycle is completed before the next one starts; \<open>k\<close> is the
  position that the first call will take in the list of calls.
\<close>

type_synonym cycle = "jsstring \<times> int \<times> int \<times> fetch_result"

fun sequential :: "nat \<Rightarrow> cycle list \<Rightarrow> event list" where
  "sequential k [] = []"
| "sequential k ((input, t1, t2, r) # cs) =
     [Type input, Submit t1, Resolve k t2 r] @ sequential (Suc k) cs"

section \<open>Example inputs\<close>

text \<open>
  The page after the user has typed \<open>s\<close> into the empty input, and after that input
  has been submitted at time \<open>t\<close>.
\<close>

abbreviation typed :: "string \<Rightarrow> world" where
  "typed s \<equiv> step (Type (js_literal s)) world_initial"

abbreviation submitted :: "string \<Rightarrow> int \<Rightarrow> world" where
  "submitted s t \<equiv> step (Submit t) (typed s)"

text \<open>
  A response with one row, one with no rows and no explanation, one that carries an
  error text, and the rows of a response with three rows.
\<close>

abbreviation scalar_response :: BackendResponse where
  "scalar_response \<equiv>
     \<lparr>query_results = Some [[Str (js_literal ''avg_speed''), Num 42]],
      nl_explanation = Some (js_literal ''The average speed is 42''),
      error = None\<rparr>"

abbreviation empty_response :: BackendResponse where
  "empty_response \<equiv> \<lparr>query_results = Some [], nl_explanation = None, error = None\<rparr>"

abbreviation error_response :: BackendResponse where
  "error_response \<equiv>
     \<lparr>query_results = None,
      nl_explanation = Some (js_literal ''Here is the answer''),
      error = Some (js_literal ''table not found'')\<rparr>"

abbreviation weekly_rows :: "cell list list" where
  "weekly_rows \<equiv>
     [[Str (js_literal ''Mon''), Num 3], [Str (js_literal ''Tue''), Num 5],
      [Str (js_literal ''Wed''), Num 2]]"

section \<open>Resolution of a call\<close>

text \<open>
  The messages that the second part of \<^verbatim>\<open>callBackendAPI\<close> appends, by the shape
  of the result of the call.
\<close>

lemma resume_Rejected:
  "chatHistory (callBackendAPI_resume now Rejected st) = chatHistory st @ [errorMessage now]"
  by (simp add: callBackendAPI_resume_def try_block_def catch_block_def)

lemma resume_not_ok:
  "chatHistory (callBackendAPI_resume now (Response False c b) st)
     = chatHistory st @ [errorMessage now]"
  by (simp add: callBackendAPI_resume_def try_block_def catch_block_def)

lemma resume_bad_json:
  "chatHistory (callBackendAPI_resume now (Response True c None) st)
     = chatHistory st @ [errorMessage now]"
  by (simp add: callBackendAPI_resume_def try_block_def catch_block_def)

lemma resume_data:
  "chatHistory (callBackendAPI_resume now (Response True c (Some d)) st)
     = chatHistory st @ (case nl_explanation d of
                           None \<Rightarrow> []
                         | Some s \<Rightarrow> if s = [] then [] else [systemMessage now s d])"
  by (simp add: callBackendAPI_resume_def try_block_def Let_def split: option.splits)

lemma step_Resolve_log:
  "k \<in> set (pending w) \<Longrightarrow>
     chatHistory (ui (step (Resolve k now r) w)) = chatHistory (callBackendAPI_resume now r (ui w))"
  by (simp add: handleSubmit_resume_def)

lemma step_Submit:
  "trim (userInput (ui w)) \<noteq> [] \<Longrightarrow>
     step (Submit t) w = callBackendAPI_begin t (userInput (ui w)) w"
  by (simp add: handleSubmit_def)

lemma resume_appends:
  "chatHistory (callBackendAPI_resume now r st)
     = chatHistory st @ chatHistory (callBackendAPI_resume now r JourneyUI_initial)"
proof (cases r)
  case Rejected
  then show ?thesis by (simp add: resume_Rejected JourneyUI_initial_def)
next
  case (Response okay code body)
  show ?thesis
  proof (cases okay)
    case False
    with Response show ?thesis by (simp add: resume_not_ok JourneyUI_initial_def)
  next
    case True
    with Response show ?thesis
      by (cases body) (simp_all add: resume_bad_json resume_data JourneyUI_initial_def)
  qed
qed

lemma run_Nil: "run [] w = w"
  by (simp add: run_def)

lemma run_Cons: "run (e # es) w = run es (step e w)"
  by (simp add: run_def)

lemma run_append: "run (es @ fs) w = run fs (run es w)"
  by (simp add: run_def)

lemmas eval_defs =
  run_def trim_def js_literal_def isWhiteSpace_def handleSubmit_def callBackendAPI_begin_def
  userMessage_def systemMessage_def errorMessage_def generic_failure_def world_initial_def
  JourneyUI_initial_def handleSubmit_resume_def callBackendAPI_resume_def try_block_def
  catch_block_def BACKEND_URL_def

section \<open>Submissions\<close>

text \<open>
  C5. When the trimmed input is the empty string, \<^verbatim>\<open>handleSubmit\<close> changes
  nothing: the message log and every other state hook stay as they are, and no call is
  issued.
\<close>

theorem blank_submit_is_noop:
  "trim (userInput (ui w)) = [] \<Longrightarrow> handleSubmit now w = w"
  by (simp add: handleSubmit_def)

theorem blank_submit_is_noop_witness:
  "trim (userInput (ui (typed ''   ''))) = []
   \<and> handleSubmit 1000 (typed ''   '') = typed ''   ''
   \<and> calls (handleSubmit 1000 (typed ''   '')) = []
   \<and> chatHistory (ui (handleSubmit 1000 (typed ''   ''))) = []"
proof -
  have blank: "trim (userInput (ui (typed ''   ''))) = []"
    by (simp add: trim_def js_literal_def isWhiteSpace_def)
  have same: "handleSubmit 1000 (typed ''   '') = typed ''   ''"
    using blank_submit_is_noop [OF blank, of 1000] .
  show ?thesis
    unfolding same using blank by (simp add: world_initial_def JourneyUI_initial_def)
qed

text \<open>
  C9, as the claim states it, fails: for the input \<^verbatim>\<open>" hi "\<close> the user message
  holds the input with its spaces, not the trimmed \<^verbatim>\<open>"hi"\<close>.
\<close>

theorem user_message_trimmed_counterexample:
  "trim (userInput (ui (typed '' hi ''))) = js_literal ''hi''
   \<and> map content (chatHistory (ui (handleSubmit 1000 (typed '' hi '')))) = [js_literal '' hi '']
   \<and> js_literal '' hi '' \<noteq> js_literal ''hi''"
  by (simp add: eval_defs)

text \<open>
  C9, amended. For every accepted submission the user message holds the input as it
  stands, untrimmed, which is also the query of the call that is issued.
\<close>

theorem user_message_is_raw_input:
  "trim (userInput (ui w)) \<noteq> [] \<Longrightarrow>
     chatHistory (ui (handleSubmit now w))
       = chatHistory (ui w)
         @ [\<lparr>id_msg = now, type = User, content = userInput (ui w), responseData = None\<rparr>]
     \<and> calls (handleSubmit now w) = calls w @ [POST BACKEND_URL (userInput (ui w))]"
  by (simp add: handleSubmit_def callBackendAPI_begin_def userMessage_def)

theorem user_message_is_raw_input_witness:
  "trim (userInput (ui (typed '' hi ''))) \<noteq> []
   \<and> chatHistory (ui (handleSubmit 1000 (typed '' hi '')))
       = [\<lparr>id_msg = 1000, type = User, content = js_literal '' hi '', responseData = None\<rparr>]
   \<and> calls (handleSubmit 1000 (typed '' hi '')) = [POST BACKEND_URL (js_literal '' hi '')]"
proof -
  have accepted: "trim (userInput (ui (typed '' hi ''))) \<noteq> []"
    by (simp add: trim_def js_literal_def isWhiteSpace_def)
  show ?thesis
    using accepted user_message_is_raw_input [OF accepted, of 1000]
    by (simp add: world_initial_def JourneyUI_initial_def)
qed

section \<open>The messages of a submission\<close>

text \<open>
  C1, as the claim states it, fails: when the call succeeds and the response has no
  \<^verbatim>\<open>nl_explanation\<close>, the resolution appends no system message at all; the log
  holds the user message only.
\<close>

theorem no_system_message_counterexample:
  "chatHistory (ui (run
      [Type (js_literal ''weekly totals''), Submit 1000,
       Resolve 0 2000 (Response True 200 (Some empty_response))]
      world_initial))
   = [userMessage 1000 (js_literal ''weekly totals'')]
   \<and> filter (\<lambda>m. type m = System) (chatHistory (ui (run
      [Type (js_literal ''weekly totals''), Submit 1000,
       Resolve 0 2000 (Response True 200 (Some empty_response))]
      world_initial))) = []"
  by (simp add: eval_defs)

text \<open>
  C1, amended. A submission whose trimmed input is not empty appends exactly one user
  message and leaves its call pending. The resolution of a pending call appends exactly
  the failure message when the call rejects, has a status that is not a success or a
  body that cannot be read; for a success it appends exactly one system message with
  the explanation and the response when \<^verbatim>\<open>nl_explanation\<close> is a non-empty
  string, and nothing otherwise. The \<^verbatim>\<open>error\<close> field has no part in it.
\<close>

theorem submission_messages:
  "trim (userInput (ui w)) \<noteq> [] \<Longrightarrow> k \<in> set (pending w') \<Longrightarrow>
     chatHistory (ui (step (Submit t) w))
       = chatHistory (ui w) @ [userMessage t (userInput (ui w))]
     \<and> length (calls w) \<in> set (pending (step (Submit t) w))
     \<and> chatHistory (ui (step (Resolve k t' Rejected) w'))
         = chatHistory (ui w') @ [errorMessage t']
     \<and> chatHistory (ui (step (Resolve k t' (Response False c b)) w'))
         = chatHistory (ui w') @ [errorMessage t']
     \<and> chatHistory (ui (step (Resolve k t' (Response True c None)) w'))
         = chatHistory (ui w') @ [errorMessage t']
     \<and> chatHistory (ui (step (Resolve k t' (Response True c (Some d))) w'))
         = chatHistory (ui w')
           @ (case nl_explanation d of
                None \<Rightarrow> []
              | Some s \<Rightarrow> if s = [] then [] else [systemMessage t' s d])"
proof -
  assume accepted: "trim (userInput (ui w)) \<noteq> []" and waiting: "k \<in> set (pending w')"
  have started: "step (Submit t) w = callBackendAPI_begin t (userInput (ui w)) w"
    using accepted by (rule step_Submit)
  have user: "chatHistory (ui (step (Submit t) w))
                = chatHistory (ui w) @ [userMessage t (userInput (ui w))]"
    unfolding started by (simp add: callBackendAPI_begin_def)
  have issued: "length (calls w) \<in> set (pending (step (Submit t) w))"
    unfolding started by (simp add: callBackendAPI_begin_def)
  note log = step_Resolve_log [OF waiting]
  show ?thesis
    using user issued
    by (simp only: log resume_Rejected resume_not_ok resume_bad_json resume_data simp_thms)
qed

theorem submission_messages_witness:
  "trim (userInput (ui (typed ''average speed''))) \<noteq> []
   \<and> 0 \<in> set (pending (submitted ''average speed'' 1000))
   \<and> map type (chatHistory (ui (submitted ''average speed'' 1000))) = [User]
   \<and> map type (chatHistory (ui (step (Resolve 0 2000 Rejected)
                                    (submitted ''average speed'' 1000)))) = [User, System]
   \<and> chatHistory (ui (step (Resolve 0 2000 (Response True 200 (Some scalar_response)))
                          (submitted ''average speed'' 1000)))
       = [userMessage 1000 (js_literal ''average speed''),
          systemMessage 2000 (js_literal ''The average speed is 42'') scalar_response]"
proof -
  have accepted: "trim (userInput (ui (typed ''average speed''))) \<noteq> []"
    by (simp add: trim_def js_literal_def isWhiteSpace_def)
  have waiting: "0 \<in> set (pending (submitted ''average speed'' 1000))"
    using accepted by (simp add: handleSubmit_def callBackendAPI_begin_def world_initial_def)
  show ?thesis
    using accepted waiting
      submission_messages [OF accepted waiting, of 1000 2000 "200" None scalar_response]
    by (simp add: eval_defs)
qed

text \<open>
  C2, as the claim states it, fails: a response with a success status, an explanation
  and an \<^verbatim>\<open>error\<close> text is answered with the normal system message, which
  carries the explanation and the response, and not with the failure message.
\<close>

theorem carried_error_counterexample:
  "chatHistory (callBackendAPI_resume 2000 (Response True 200 (Some error_response))
      JourneyUI_initial)
   = [\<lparr>id_msg = 2001, type = System, content = js_literal ''Here is the answer'',
       responseData = Some error_response\<rparr>]
   \<and> js_literal ''Here is the answer'' \<noteq> generic_failure"
  by (simp add: eval_defs)

text \<open>
  C2, amended. For a response with a success status that carries a non-empty
  \<^verbatim>\<open>error\<close> field, the field is not read: the system message, if one is
  appended, is the normal one, with the explanation as its text and the whole response
  attached; the failure message is not appended; the response is stored in the
  \<^verbatim>\<open>responseData\<close> hook as it came.
\<close>

theorem carried_error_is_ignored:
  "error d = Some e \<Longrightarrow> e \<noteq> [] \<Longrightarrow>
     chatHistory (callBackendAPI_resume now (Response True c (Some d)) st)
       = chatHistory st
         @ (case nl_explanation d of
              None \<Rightarrow> []
            | Some s \<Rightarrow>
                if s = [] then []
                else [\<lparr>id_msg = now + 1, type = System, content = s, responseData = Some d\<rparr>])
     \<and> errorMessage now
         \<notin> set (chatHistory (callBackendAPI_resume now (Response True c (Some d))
                                JourneyUI_initial))
     \<and> responseData_state (callBackendAPI_resume now (Response True c (Some d)) st) = Some d"
  by (simp add: callBackendAPI_resume_def try_block_def Let_def systemMessage_def
      errorMessage_def JourneyUI_initial_def split: option.splits)

theorem carried_error_is_ignored_witness:
  "error error_response = Some (js_literal ''table not found'')
   \<and> js_literal ''table not found'' \<noteq> []
   \<and> map content (chatHistory (callBackendAPI_resume 2000
        (Response True 200 (Some error_response)) JourneyUI_initial))
       = [js_literal ''Here is the answer'']
   \<and> responseData_state (callBackendAPI_resume 2000
        (Response True 200 (Some error_response)) JourneyUI_initial) = Some error_response"
proof -
  have carried: "error error_response = Some (js_literal ''table not found'')"
    by simp
  have nonempty: "js_literal ''table not found'' \<noteq> []"
    by (simp add: js_literal_def)
  show ?thesis
    using carried nonempty
      carried_error_is_ignored [OF carried nonempty, of 2000 "200" JourneyUI_initial]
    by (simp add: JourneyUI_initial_def js_literal_def)
qed

text \<open>
  C10. When the call rejects, has a status that is not a success, or a body that cannot
  be read, the one message appended is the failure message: a system message with the
  generic text and no response data, below which the page shows neither a scalar nor a
  chart.
\<close>

theorem failure_message_has_no_data:
  "chatHistory (callBackendAPI_resume now Rejected st) = chatHistory st @ [errorMessage now]
   \<and> chatHistory (callBackendAPI_resume now (Response False c b) st)
       = chatHistory st @ [errorMessage now]
   \<and> chatHistory (callBackendAPI_resume now (Response True c None) st)
       = chatHistory st @ [errorMessage now]
   \<and> type (errorMessage now) = System
   \<and> content (errorMessage now) = generic_failure
   \<and> responseData (errorMessage now) = None
   \<and> render_attachment (errorMessage now) mode = None"
  by (simp add: resume_Rejected resume_not_ok resume_bad_json errorMessage_def
      render_attachment_def)

section \<open>Submissions while a call is pending\<close>

text \<open>
  C4, as the claim states it, fails: a second submission made while the first call is
  pending is started at once, so two calls are pending together; when the second
  resolves first, its system message enters the log before the system message of the
  first submission.
\<close>

theorem interleaved_responses_counterexample:
  "pending (run [Type (js_literal ''a''), Submit 1000, Type (js_literal ''b''), Submit 1500]
             world_initial) = [0, 1]
   \<and> map content (chatHistory (ui (run
        [Type (js_literal ''a''), Submit 1000, Type (js_literal ''b''), Submit 1500,
         Resolve 1 2000 (Response True 200
           (Some \<lparr>query_results = None, nl_explanation = Some (js_literal ''B''),
                  error = None\<rparr>)),
         Resolve 0 3000 (Response True 200
           (Some \<lparr>query_results = None, nl_explanation = Some (js_literal ''A''),
                  error = None\<rparr>))]
        world_initial)))
      = [js_literal ''a'', js_literal ''b'', js_literal ''B'', js_literal ''A'']"
  by (simp add: eval_defs)

text \<open>One cycle run from any state of the page, and run on its own.\<close>

lemma one_cycle:
  assumes "trim input \<noteq> []"
  shows "chatHistory (ui (run [Type input, Submit t1, Resolve (length (calls w)) t2 r] w))
           = chatHistory (ui w) @ userMessage t1 input
               # chatHistory (callBackendAPI_resume t2 r JourneyUI_initial)"
    and "length (calls (run [Type input, Submit t1, Resolve (length (calls w)) t2 r] w))
           = Suc (length (calls w))"
proof -
  define w1 where "w1 = step (Type input) w"
  define w2 where "w2 = step (Submit t1) w1"
  define w3 where "w3 = step (Resolve (length (calls w)) t2 r) w2"
  have whole: "run [Type input, Submit t1, Resolve (length (calls w)) t2 r] w = w3"
    by (simp only: run_Cons run_Nil w1_def w2_def w3_def)
  have typed: "userInput (ui w1) = input" "calls w1 = calls w"
    "chatHistory (ui w1) = chatHistory (ui w)"
    by (simp_all add: w1_def)
  have "trim (userInput (ui w1)) \<noteq> []"
    using assms by (simp add: typed)
  then have "w2 = callBackendAPI_begin t1 (userInput (ui w1)) w1"
    unfolding w2_def by (rule step_Submit)
  then have started: "w2 = callBackendAPI_begin t1 input w1"
    by (simp only: typed)
  have waiting: "length (calls w) \<in> set (pending w2)"
    unfolding started by (simp add: callBackendAPI_begin_def typed)
  have log2: "chatHistory (ui w2) = chatHistory (ui w) @ [userMessage t1 input]"
    unfolding started by (simp add: callBackendAPI_begin_def typed)
  have calls2: "length (calls w2) = Suc (length (calls w))"
    unfolding started by (simp add: callBackendAPI_begin_def typed)
  have log3: "chatHistory (ui w3)
                = chatHistory (ui w2) @ chatHistory (callBackendAPI_resume t2 r JourneyUI_initial)"
    unfolding w3_def by (rule trans [OF step_Resolve_log [OF waiting] resume_appends])
  have calls3: "calls w3 = calls w2"
    unfolding w3_def by simp
  show "chatHistory (ui (run [Type input, Submit t1, Resolve (length (calls w)) t2 r] w))
           = chatHistory (ui w) @ userMessage t1 input
               # chatHistory (callBackendAPI_resume t2 r JourneyUI_initial)"
    unfolding whole log3 log2 by simp
  show "length (calls (run [Type input, Submit t1, Resolve (length (calls w)) t2 r] w))
           = Suc (length (calls w))"
    unfolding whole calls3 calls2 ..
qed

lemma one_cycle_alone:
  assumes "trim input \<noteq> []"
  shows "chatHistory (ui (run (sequential 0 [(input, t1, t2, r)]) world_initial))
           = userMessage t1 input # chatHistory (callBackendAPI_resume t2 r JourneyUI_initial)"
proof -
  have "length (calls world_initial) = 0" "chatHistory (ui world_initial) = []"
    by (simp_all add: world_initial_def JourneyUI_initial_def)
  then show ?thesis
    using one_cycle(1) [OF assms, of t1 world_initial t2 r] by simp
qed

lemma sequential_log:
  "\<forall>c \<in> set cs. trim (fst c) \<noteq> [] \<Longrightarrow>
     chatHistory (ui (run (sequential (length (calls w)) cs) w))
       = chatHistory (ui w)
         @ concat (map (\<lambda>c. chatHistory (ui (run (sequential 0 [c]) world_initial))) cs)"
proof (induction cs arbitrary: w)
  case Nil
  then show ?case by (simp add: run_def)
next
  case (Cons c cs)
  obtain input t1 t2 r where c: "c = (input, t1, t2, r)"
    by (cases c) auto
  have accepted: "trim input \<noteq> []"
    using Cons.prems c by simp
  let ?w' = "run [Type input, Submit t1, Resolve (length (calls w)) t2 r] w"
  have rest: "\<forall>c \<in> set cs. trim (fst c) \<noteq> []"
    using Cons.prems by simp
  have "run (sequential (length (calls w)) (c # cs)) w
          = run (sequential (Suc (length (calls w))) cs) ?w'"
    unfolding c sequential.simps run_append ..
  also have "Suc (length (calls w)) = length (calls ?w')"
    using one_cycle(2) [OF accepted] by simp
  finally have whole: "chatHistory (ui (run (sequential (length (calls w)) (c # cs)) w))
      = chatHistory (ui ?w')
        @ concat (map (\<lambda>c. chatHistory (ui (run (sequential 0 [c]) world_initial))) cs)"
    using Cons.IH [OF rest, of ?w'] by simp
  have first: "chatHistory (ui ?w')
      = chatHistory (ui w) @ chatHistory (ui (run (sequential 0 [c]) world_initial))"
    unfolding c by (simp only: one_cycle(1) [OF accepted] one_cycle_alone [OF accepted])
  show ?case
    unfolding whole first by simp
qed

text \<open>
  C4, amended. The controller sets no limit on the calls that are pending: a submission
  whose trimmed input is not empty is started whatever is pending, and its call joins
  the pending ones. When every submission is resolved before the next one is made, the
  log is the log before, followed by the messages of each submission in the order of
  the submissions, so that the messages of one submission precede all those of the
  next.
\<close>

theorem submissions_are_not_serialised:
  "trim (userInput (ui w)) \<noteq> [] \<Longrightarrow> \<forall>c \<in> set cs. trim (fst c) \<noteq> [] \<Longrightarrow>
     pending (step (Submit t) w) = pending w @ [length (calls w)]
     \<and> chatHistory (ui (run (sequential (length (calls w')) cs) w'))
         = chatHistory (ui w')
           @ concat (map (\<lambda>c. chatHistory (ui (run (sequential 0 [c]) world_initial))) cs)"
  using sequential_log [of cs w'] by (simp add: handleSubmit_def callBackendAPI_begin_def)

theorem submissions_are_not_serialised_witness:
  "trim (userInput (ui (step (Type (js_literal ''b'')) (submitted ''a'' 1000)))) \<noteq> []
   \<and> trim (js_literal ''average speed'') \<noteq> []
   \<and> trim (js_literal ''bad query'') \<noteq> []
   \<and> pending (submitted ''a'' 1000) = [0]
   \<and> pending (step (Submit 1500) (step (Type (js_literal ''b'')) (submitted ''a'' 1000)))
       = [0, 1]
   \<and> map content (chatHistory (ui (run (sequential 0
        [(js_literal ''average speed'', 1000, 2000, Response True 200 (Some scalar_response)),
         (js_literal ''bad query'', 3000, 4000, Response False 500 None)]) world_initial)))
       = [js_literal ''average speed'', js_literal ''The average speed is 42'',
          js_literal ''bad query'', generic_failure]"
proof -
  have accepted:
    "trim (userInput (ui (step (Type (js_literal ''b'')) (submitted ''a'' 1000)))) \<noteq> []"
    by (simp add: trim_def js_literal_def isWhiteSpace_def)
  have first: "trim (js_literal ''average speed'') \<noteq> []"
    and second: "trim (js_literal ''bad query'') \<noteq> []"
    by (simp_all add: trim_def js_literal_def isWhiteSpace_def)
  have all: "\<forall>c \<in> set [(js_literal ''average speed'', 1000::int, 2000::int,
                           Response True 200 (Some scalar_response)),
                          (js_literal ''bad query'', 3000, 4000, Response False 500 None)].
               trim (fst c) \<noteq> []"
    using first second by simp
  have fresh: "length (calls world_initial) = 0"
    by (simp add: world_initial_def)
  show ?thesis
    using accepted first second
      submissions_are_not_serialised [OF accepted all, of 1500 world_initial]
    unfolding fresh
    by (simp add: eval_defs)
qed

section \<open>Message ids\<close>

text \<open>
  C8. The id of the user message is the clock at the submission; the id of the failure
  message is the clock at the resolution, with nothing added. When the call fails
  within the millisecond of the submission the two ids are equal, and not strictly
  increasing.
\<close>

theorem equal_ids_on_failure:
  "map id_msg (chatHistory (ui (run
      [Type (js_literal ''bad query''), Submit 1000, Resolve 0 1000 Rejected] world_initial)))
   = [1000, 1000]"
  by (simp add: eval_defs)

section \<open>Scalar, chart or nothing\<close>

text \<open>
  C3. For a system message that carries \<^verbatim>\<open>query_results\<close>: with no rows the
  chart component renders nothing, so neither a scalar nor a chart is shown; with
  exactly one row the page shows a scalar whose label is column 0 and whose value is
  column 1 of that row; with more than one row it shows a chart whose points pair
  column 0 as name with column 1 as value, one point per row, in the order of the rows.
\<close>

theorem scalar_series_dispatch:
  "type message = System \<Longrightarrow> responseData message = Some rd \<Longrightarrow>
   query_results rd = Some rows \<Longrightarrow>
     (length rows = 0 \<longrightarrow> render_attachment message mode = Some (Chart None))
     \<and> (length rows = 1 \<longrightarrow>
            render_attachment message mode
              = Some (Scalar (at_index (rows ! 0) 0) (at_index (rows ! 0) 1)))
     \<and> (length rows > 1 \<longrightarrow>
            (\<exists>v. render_attachment message mode = Some (Chart (Some v))
                 \<and> chart_data (chart v)
                     = map (\<lambda>row. \<lparr>name = at_index row 0, value = at_index row 1\<rparr>) rows
                 \<and> length (chart_data (chart v)) = length rows
                 \<and> (\<forall>i < length rows.
                        chart_data (chart v) ! i
                          = \<lparr>name = at_index (rows ! i) 0, value = at_index (rows ! i) 1\<rparr>)))"
  by (cases mode)
     (auto simp add: render_attachment_def DataVisualization_def renderChart_def
        transformedData_def)

theorem scalar_series_dispatch_witness:
  "render_attachment (systemMessage 2000 [] scalar_response) Bar
     = Some (Scalar (Some (Str (js_literal ''avg_speed''))) (Some (Num 42)))
   \<and> render_attachment (systemMessage 2000 [] empty_response) Bar = Some (Chart None)
   \<and> (\<exists>v. render_attachment
             (systemMessage 2000 []
                \<lparr>query_results = Some weekly_rows, nl_explanation = None, error = None\<rparr>) Pie
           = Some (Chart (Some v))
          \<and> chart_data (chart v)
              = [\<lparr>name = Some (Str (js_literal ''Mon'')), value = Some (Num 3)\<rparr>,
                 \<lparr>name = Some (Str (js_literal ''Tue'')), value = Some (Num 5)\<rparr>,
                 \<lparr>name = Some (Str (js_literal ''Wed'')), value = Some (Num 2)\<rparr>])"
proof -
  have one: "render_attachment (systemMessage 2000 [] scalar_response) Bar
     = Some (Scalar (Some (Str (js_literal ''avg_speed''))) (Some (Num 42)))"
    using scalar_series_dispatch
      [of "systemMessage 2000 [] scalar_response" scalar_response
          "[[Str (js_literal ''avg_speed''), Num 42]]" Bar]
    by (simp add: systemMessage_def at_index_def)
  have none: "render_attachment (systemMessage 2000 [] empty_response) Bar = Some (Chart None)"
    using scalar_series_dispatch
      [of "systemMessage 2000 [] empty_response" empty_response "[]" Bar]
    by (simp add: systemMessage_def)
  have many: "\<exists>v. render_attachment
             (systemMessage 2000 []
                \<lparr>query_results = Some weekly_rows, nl_explanation = None, error = None\<rparr>) Pie
           = Some (Chart (Some v))
          \<and> chart_data (chart v)
              = [\<lparr>name = Some (Str (js_literal ''Mon'')), value = Some (Num 3)\<rparr>,
                 \<lparr>name = Some (Str (js_literal ''Tue'')), value = Some (Num 5)\<rparr>,
                 \<lparr>name = Some (Str (js_literal ''Wed'')), value = Some (Num 2)\<rparr>]"
    using scalar_series_dispatch
      [of "systemMessage 2000 []
             \<lparr>query_results = Some weekly_rows, nl_explanation = None, error = None\<rparr>"
          "\<lparr>query_results = Some weekly_rows, nl_explanation = None, error = None\<rparr>"
          weekly_rows Pie]
    by (auto simp add: systemMessage_def at_index_def)
  show ?thesis using one none many by blast
qed

text \<open>
  C6. Handed no data, or data with no rows, the chart component returns
  \<^verbatim>\<open>null\<close> in whatever mode it is: it renders no chart, and the guard is the
  first thing it evaluates, so nothing is read from the data. This holds for both
  chart components of the repository.
\<close>

theorem no_data_renders_nothing:
  "DataVisualization None mode = None
   \<and> DataVisualization (Some []) mode = None
   \<and> DataVisualization_labels None labels mode = None
   \<and> DataVisualization_labels (Some []) labels mode = None"
  by (simp add: DataVisualization_def DataVisualization_labels_def)

section \<open>Changes of the chart mode\<close>

lemma fold_setChartType:
  "fold setChartType modes wd = wd\<lparr>chartType := last (chartType wd # modes)\<rparr>"
  by (induction modes arbitrary: wd) (simp_all add: setChartType_def)

lemma chart_data_renderChart: "chart_data (renderChart mode td) = td"
  by (cases mode) (simp_all add: renderChart_def)

text \<open>
  C7. For a chart component mounted with a dataset that has rows, any sequence of mode
  selections changes the selected mode and nothing else: the data it was given stay the
  same, and the points handed to the chart are the transformed data, before the
  selections and after them.
\<close>

theorem mode_changes_keep_data:
  "data wd = Some d \<Longrightarrow> d \<noteq> [] \<Longrightarrow>
     fold setChartType modes wd = wd\<lparr>chartType := last (chartType wd # modes)\<rparr>
     \<and> data (fold setChartType modes wd) = Some d
     \<and> map_option (\<lambda>v. chart_data (chart v)) (render_widget (fold setChartType modes wd))
         = Some (transformedData d)
     \<and> map_option (\<lambda>v. chart_data (chart v)) (render_widget wd) = Some (transformedData d)
     \<and> map_option selected (render_widget (fold setChartType modes wd))
         = Some (last (chartType wd # modes))"
  by (simp add: fold_setChartType render_widget_def DataVisualization_def chart_data_renderChart)

theorem mode_changes_keep_data_witness:
  "data (mount (Some weekly_rows)) = Some weekly_rows \<and> weekly_rows \<noteq> []
   \<and> fold setChartType [Pie, Line, Pie, Bar, Line] (mount (Some weekly_rows))
       = \<lparr>data = Some weekly_rows, chartType = Line\<rparr>
   \<and> map_option (\<lambda>v. chart_data (chart v))
         (render_widget (fold setChartType [Pie, Line, Pie, Bar, Line] (mount (Some weekly_rows))))
       = Some [\<lparr>name = Some (Str (js_literal ''Mon'')), value = Some (Num 3)\<rparr>,
               \<lparr>name = Some (Str (js_literal ''Tue'')), value = Some (Num 5)\<rparr>,
               \<lparr>name = Some (Str (js_literal ''Wed'')), value = Some (Num 2)\<rparr>]"
proof -
  have props: "data (mount (Some weekly_rows)) = Some weekly_rows"
    by (simp add: mount_def)
  have rows: "weekly_rows \<noteq> []"
    by simp
  show ?thesis
    using props rows
      mode_changes_keep_data [OF props rows, of "[Pie, Line, Pie, Bar, Line]"]
    by (simp add: mount_def transformedData_def at_index_def setChartType_def)
qed

end
